theory Spec2Isabelle
  imports Main "HOL-Library.Sublist" "HOL-Library.Stream"
begin

section \<open>Go strings and the library calls the loaders make\<close>

text \<open>
  A Go string is a sequence of bytes, here a \<^typ>\<open>string\<close> (a list of 8-bit characters).
  The functions of package \<open>strings\<close> that the two programs call are written out below on
  bytes. Where Go decodes UTF-8, the encodings that matter are listed byte by byte.
\<close>

type_synonym cell = string
type_synonym row = "cell list"

definition isUpperASCII :: "char \<Rightarrow> bool" where
  "isUpperASCII c = (65 \<le> (of_char c :: nat) \<and> (of_char c :: nat) \<le> 90)"

text \<open>\<open>c += 'a' - 'A'\<close> for an upper-case ASCII letter, any other byte as it is.\<close>

definition lowerASCII :: "char \<Rightarrow> char" where
  "lowerASCII c = (if isUpperASCII c then char_of (of_char c + (32::nat)) else c)"

text \<open>
  The UTF-8 encodings of the runes for which \<open>unicode.IsSpace\<close> holds: tab, line feed,
  vertical tab, form feed, carriage return, space, U+0085, U+00A0, U+1680, U+2000 to
  U+200A, U+2028, U+2029, U+202F, U+205F and U+3000.
\<close>

definition whiteSpace :: "string list" where
  "whiteSpace =
    [[CHR 0x09], [CHR 0x0A], [CHR 0x0B], [CHR 0x0C], [CHR 0x0D], [CHR 0x20],
     [CHR 0xC2, CHR 0x85], [CHR 0xC2, CHR 0xA0],
     [CHR 0xE1, CHR 0x9A, CHR 0x80],
     [CHR 0xE2, CHR 0x80, CHR 0x80], [CHR 0xE2, CHR 0x80, CHR 0x81],
     [CHR 0xE2, CHR 0x80, CHR 0x82], [CHR 0xE2, CHR 0x80, CHR 0x83],
     [CHR 0xE2, CHR 0x80, CHR 0x84], [CHR 0xE2, CHR 0x80, CHR 0x85],
     [CHR 0xE2, CHR 0x80, CHR 0x86], [CHR 0xE2, CHR 0x80, CHR 0x87],
     [CHR 0xE2, CHR 0x80, CHR 0x88], [CHR 0xE2, CHR 0x80, CHR 0x89],
     [CHR 0xE2, CHR 0x80, CHR 0x8A],
     [CHR 0xE2, CHR 0x80, CHR 0xA8], [CHR 0xE2, CHR 0x80, CHR 0xA9],
     [CHR 0xE2, CHR 0x80, CHR 0xAF],
     [CHR 0xE2, CHR 0x81, CHR 0x9F],
     [CHR 0xE3, CHR 0x80, CHR 0x80]]"

text \<open>
  The width in bytes of the white space rune a string starts with, or ends with; 0 when
  it starts, or ends, with anything else (an invalid byte decodes to U+FFFD, which is no
  white space).
\<close>

definition leadingSpace :: "string \<Rightarrow> nat" where
  "leadingSpace s =
     (case find (\<lambda>w. prefix w s) whiteSpace of None \<Rightarrow> 0 | Some w \<Rightarrow> length w)"

definition trailingSpace :: "string \<Rightarrow> nat" where
  "trailingSpace s =
     (case find (\<lambda>w. suffix w s) whiteSpace of None \<Rightarrow> 0 | Some w \<Rightarrow> length w)"

lemma leadingSpace_le: "leadingSpace s \<le> length s"
  by (auto simp: leadingSpace_def find_Some_iff prefix_def split: option.splits)

lemma trailingSpace_le: "trailingSpace s \<le> length s"
  by (auto simp: trailingSpace_def find_Some_iff suffix_def split: option.splits)

function trimLeft :: "string \<Rightarrow> string" where
  "trimLeft s = (if leadingSpace s = 0 then s else trimLeft (drop (leadingSpace s) s))"
  by pat_completeness auto
termination
proof (relation "measure length")
  show "wf (measure length)" by simp
next
  fix s :: string
  assume "leadingSpace s \<noteq> 0"
  moreover have "leadingSpace s \<le> length s" by (rule leadingSpace_le)
  ultimately show "(drop (leadingSpace s) s, s) \<in> measure length" by simp
qed

function trimRight :: "string \<Rightarrow> string" where
  "trimRight s =
     (if trailingSpace s = 0 then s else trimRight (take (length s - trailingSpace s) s))"
  by pat_completeness auto
termination
proof (relation "measure length")
  show "wf (measure length)" by simp
next
  fix s :: string
  assume "trailingSpace s \<noteq> 0"
  moreover have "trailingSpace s \<le> length s" by (rule trailingSpace_le)
  ultimately show "(take (length s - trailingSpace s) s, s) \<in> measure length" by simp
qed

declare trimLeft.simps [simp del] trimRight.simps [simp del]

text \<open>\<open>strings.TrimSpace\<close>: all leading and all trailing white space runes removed.\<close>

definition trimSpace :: "string \<Rightarrow> string" where
  "trimSpace s = trimRight (trimLeft s)"

text \<open>
  \<open>strings.EqualFold(s, t)\<close> for an ASCII \<open>t\<close> (both programs pass the constants
  \<open>"true"\<close> and \<open>"false"\<close>): equality under Unicode simple case folding. An ASCII letter
  folds with its other case; beyond ASCII, \<open>s\<close> and \<open>S\<close> also fold with U+017F (bytes C5 BF)
  and \<open>k\<close> and \<open>K\<close> with U+212A (bytes E2 84 AA). No other rune folds with an ASCII one.
\<close>

fun equalFold :: "string \<Rightarrow> string \<Rightarrow> bool" where
  "equalFold [] [] = True"
| "equalFold [] (c # t) = False"
| "equalFold (x # s) [] = False"
| "equalFold (x # s) (c # t) =
     (if lowerASCII x = lowerASCII c then equalFold s t
      else if lowerASCII c = CHR ''s'' \<and> x = CHR 0xC5 \<and> prefix [CHR 0xBF] s
        then equalFold (drop 1 s) t
      else if lowerASCII c = CHR ''k'' \<and> x = CHR 0xE2 \<and> prefix [CHR 0x84, CHR 0xAA] s
        then equalFold (drop 2 s) t
      else False)"

text \<open>\<open>strings.Contains(s, substr)\<close>: \<open>substr\<close> occurs somewhere in \<open>s\<close>.\<close>

fun contains :: "string \<Rightarrow> string \<Rightarrow> bool" where
  "contains [] substr = (substr = [])"
| "contains (c # s) substr = (prefix substr (c # s) \<or> contains s substr)"

text \<open>
  \<open>strings.ToLower\<close>. ASCII letters are lowered byte by byte. Two runes beyond ASCII have
  an ASCII lower case, U+0130 (bytes C4 B0, lower case \<open>i\<close>) and U+212A (bytes E2 84 AA,
  lower case \<open>k\<close>). The bytes of every other rune beyond ASCII are kept here; Go writes a
  rune beyond ASCII for them again, so the result is an ASCII word in the model exactly
  when it is one in Go, and it is then the same word.
\<close>

fun toLower :: "string \<Rightarrow> string" where
  "toLower [] = []"
| "toLower (c # s) =
     (if c = CHR 0xC4 \<and> prefix [CHR 0xB0] s then CHR ''i'' # toLower (drop 1 s)
      else if c = CHR 0xE2 \<and> prefix [CHR 0x84, CHR 0xAA] s
        then CHR ''k'' # toLower (drop 2 s)
      else lowerASCII c # toLower s)"


section \<open>The field parsers\<close>

text \<open>
  What the two loaders print, one value for each \<open>fmt.Print\<close> call, with the numbers and
  strings the call formats.
\<close>

datatype collection = Patrons | PatronTypes | Libraries | NotificationTypes

datatype printed =
    WarnMonth string
  | NoteDrop collection
  | IndexesCreated
  | SkipRow nat nat
  | FailedPatronType nat
  | FailedLibrary nat
  | FailedNotification nat
  | FailedBatch nat
  | FailedFinalBatch
  | Progress nat int int
  | Summary int int int
  | ExecutedScript string
  | FailedRow nat
  | RowData row

definition months :: "(string \<times> int) list" where
  "months =
    [(''january'', 1), (''february'', 2), (''march'', 3), (''april'', 4),
     (''may'', 5), (''june'', 6), (''july'', 7), (''august'', 8),
     (''september'', 9), (''october'', 10), (''november'', 11), (''december'', 12)]"

text \<open>
  \<open>monthToIntOrNull\<close>: the month number or nil, together with the warning it prints.
\<close>

definition monthToIntOrNull :: "string \<Rightarrow> int option \<times> printed list" where
  "monthToIntOrNull monthName0 =
     (let monthName = trimSpace monthName0 in
      if monthName = [] then (None, [])
      else
        (case map_of months (toLower monthName) of
           Some num \<Rightarrow> (Some num, [])
         | None \<Rightarrow> (None, [WarnMonth monthName])))"


definition cleanEmail :: "string \<Rightarrow> string option" where
  "cleanEmail email0 =
     (let email = trimSpace email0 in
      if email = [] \<or> equalFold email ''true'' \<or> equalFold email ''false''
         \<or> \<not> contains email ''@''
      then None
      else Some email)"


section \<open>The document store\<close>

text \<open>
  The MongoDB loader keeps four collections. A patron document is the struct \<open>Patron\<close>;
  a document of a reference collection is its code and its description (or name).
\<close>

record Patron =
  PatronTypeCode :: string
  PatronTypeDesc :: string
  CheckoutTotal :: string
  RenewalTotal :: string
  AgeRange :: string
  HomeLibraryCode :: string
  HomeLibraryName :: string
  ActiveMonth :: "int option"
  ActiveYear :: "string option"
  NotificationTypeCode :: string
  NotificationTypeDesc :: string
  Email :: "string option"
  WithinSFC :: bool
  YearRegistered :: "string option"

type_synonym refdoc = "string \<times> string"

text \<open>
  A call of the driver returns nil or an error. Which calls fail is not the program's
  choice, so the store carries a script for every kind of call: the replies of the calls
  to come, in order, and \<open>Ok\<close> once the script has run out. A failed \<open>InsertMany\<close> says
  how many documents of the batch were written before the error (0 for a store that
  writes a batch as a whole). A collection that does not exist is an empty one: the
  driver's \<open>Drop\<close> returns nil for it (it swallows the server's "namespace not found"),
  so an \<open>Err\<close> of a drop is always a failure for another reason.
\<close>

datatype reply = Ok | Err

datatype bulkReply = BulkOk | BulkErr nat

datatype request =
    Drop collection
  | CreateIndexes collection
  | UpdateOneUpsert collection string string
  | InsertMany "Patron list"

record mongo =
  patrons :: "Patron list"
  patron_types :: "refdoc list"
  libraries :: "refdoc list"
  notification_types :: "refdoc list"
  dropScript :: "reply list"
  indexScript :: "reply list"
  upsertScript :: "reply list"
  insertScript :: "bulkReply list"
  requests :: "request list"

definition nextReply :: "reply list \<Rightarrow> reply \<times> reply list" where
  "nextReply script = (case script of [] \<Rightarrow> (Ok, []) | r # rest \<Rightarrow> (r, rest))"






text \<open>\<open>Indexes().CreateOne\<close> and \<open>Indexes().CreateMany\<close> on a collection.\<close>

definition createIndex :: "collection \<Rightarrow> mongo \<Rightarrow> reply \<times> mongo" where
  "createIndex c m =
     (let (r, rest) = nextReply (indexScript m)
      in (r, m\<lparr>indexScript := rest, requests := requests m @ [CreateIndexes c]\<rparr>))"




section \<open>The MongoDB loader\<close>






text \<open>The variables of the import loop: the two counters, the buffer, the store and the output.\<close>

record loop =
  good :: int
  bad :: int
  patronDocs :: "Patron list"
  store :: mongo
  shown :: "printed list"



definition progress :: "nat \<Rightarrow> loop \<Rightarrow> loop" where
  "progress i st =
     (if i mod 10000 = 0 then st\<lparr>shown := shown st @ [Progress i (good st) (bad st)]\<rparr> else st)"










section \<open>The specification's functions, in its own words\<close>

text \<open>
  \<open>parseEmail\<close> as the specification words it: absent if the trimmed input is empty, equals
  \<open>true\<close> or \<open>false\<close> when letter case is ignored, or lacks an \<open>@\<close>; otherwise present
  with the trimmed value.
\<close>

definition parseEmail_spec :: "string \<Rightarrow> string option" where
  "parseEmail_spec raw =
     (let t = trimSpace raw in
      if t = [] \<or> map lowerASCII t = ''true'' \<or> map lowerASCII t = ''false''
         \<or> CHR ''@'' \<notin> set t
      then None else Some t)"



text \<open>
  \<open>parseMonth\<close> as the specification words it, on the input as it is given: empty input
  is absent without a warning, one of the twelve English month names in any letter case
  is its number, and any other input is absent with a warning.
\<close>

definition englishMonths :: "string list" where
  "englishMonths =
    [''january'', ''february'', ''march'', ''april'', ''may'', ''june'', ''july'',
     ''august'', ''september'', ''october'', ''november'', ''december'']"

definition parseMonth_spec :: "string \<Rightarrow> int option \<times> printed list" where
  "parseMonth_spec raw =
     (if raw = [] then (None, [])
      else (case map_of (zip englishMonths [1..12]) (toLower raw) of
              Some n \<Rightarrow> (Some n, [])
            | None \<Rightarrow> (None, [WarnMonth raw])))"

section \<open>Stores and loop states to run the loaders on\<close>




section \<open>Notions the properties of the MongoDB loader are stated with\<close>














section \<open>The MySQL program\<close>

subsection \<open>More of package strings, and \<open>filepath.Ext\<close>\<close>

text \<open>
  The text before and the text after the first occurrence of \<open>sep\<close>, the one
  \<open>strings.Index\<close> finds; nothing when \<open>sep\<close> does not occur.
\<close>

fun cut :: "string \<Rightarrow> string \<Rightarrow> (string \<times> string) option" where
  "cut [] sep = (if sep = [] then Some ([], []) else None)"
| "cut (c # s) sep =
     (if prefix sep (c # s) then Some ([], drop (length sep) (c # s))
      else map_option (\<lambda>(before, after). (c # before, after)) (cut s sep))"

lemma cut_length:
  "cut s sep = Some (before, after) \<Longrightarrow> length before + length sep + length after = length s"
proof (induction s arbitrary: before)
  case Nil
  then show ?case by (simp split: if_splits)
next
  case (Cons c s)
  show ?case
  proof (cases "prefix sep (c # s)")
    case True
    with Cons.prems have "before = []" and "after = drop (length sep) (c # s)"
      by simp_all
    moreover from True have "length sep \<le> length (c # s)" by (rule prefix_length_le)
    ultimately show ?thesis by simp
  next
    case False
    with Cons.prems obtain b where "cut s sep = Some (b, after)" "before = c # b"
      by auto
    with Cons.IH[of b] show ?thesis by simp
  qed
qed

text \<open>\<open>strings.Split(s, sep)\<close> for a non-empty \<open>sep\<close>, the only kind the program passes.\<close>

function split :: "string \<Rightarrow> string \<Rightarrow> string list" where
  "split s sep =
     (if sep = [] then [s]
      else (case cut s sep of
              None \<Rightarrow> [s]
            | Some (before, after) \<Rightarrow> before # split after sep))"
  by pat_completeness auto
termination
proof (relation "measure (\<lambda>(s, sep). length s)")
  show "wf (measure (\<lambda>(s, sep). length s))" by simp
next
  fix s sep :: string and x2 :: "string \<times> string" and before after :: string
  assume "sep \<noteq> []" and "cut s sep = Some x2" and "(before, after) = x2"
  then have "length before + length sep + length after = length s"
    by (simp add: cut_length)
  with \<open>sep \<noteq> []\<close> show "((after, sep), (s, sep)) \<in> measure (\<lambda>(s, sep). length s)"
    by (cases sep) simp_all
qed

declare split.simps [simp del]

text \<open>\<open>strings.SplitN(s, sep, n)\<close> for a non-empty \<open>sep\<close> and \<open>n \<ge> 0\<close>.\<close>

fun splitN :: "string \<Rightarrow> string \<Rightarrow> nat \<Rightarrow> string list" where
  "splitN s sep 0 = []"
| "splitN s sep (Suc 0) = [s]"
| "splitN s sep (Suc (Suc n)) =
     (case cut s sep of
        None \<Rightarrow> [s]
      | Some (before, after) \<Rightarrow> before # splitN after sep (Suc n))"



subsection \<open>The database\<close>

text \<open>
  A row of table \<open>patrons\<close>, and the database: its four tables, the counter behind
  \<open>AUTO_INCREMENT\<close> of \<open>patron_types.id\<close>, the replies of the calls to come (as for the
  document store: \<open>Ok\<close> once the script has run out) and the calls made so far. A row of
  \<open>patron_types\<close> is its code with its id and description.
\<close>

record sqlPatron =
  patron_type_id :: int
  checkout_total :: string
  renewal_total :: string
  age_range :: string
  home_library_code :: string
  active_month :: "int option"
  active_year :: "string option"
  notification_type_code :: string
  email :: "string option"
  within_sfc :: int
  year_registered :: "string option"






subsection \<open>\<open>runScripts\<close>\<close>









subsection \<open>The MySQL loader\<close>














section \<open>The query shells\<close>

text \<open>
  What a shell prints, one value for a line or a block of the output: the prompt, the
  good-bye, the help text, the output of the benchmark, the messages of the errors, the
  rule of 80 dashes, the header of the columns, a result (a document or a row) and the
  closing count.
\<close>

datatype 'd shellLine =
    Prompt
  | Bye
  | Help
  | Benchmark
  | FormatError
  | FilterParseError
  | QueryError
  | ColumnsError
  | Rule
  | Header "string list"
  | Result 'd
  | DecodeError
  | Count nat

text \<open>What a cursor gives at a step: a result, or one that cannot be decoded.\<close>

datatype 'd cursorItem = Decoded 'd | Undecodable

text \<open>
  The loop over a cursor, in both programs: a result is printed and counted, one that
  cannot be decoded (\<open>cursor.Decode\<close>, \<open>rows.Scan\<close>) gives an error line and is not
  counted; then the rule and the count.
\<close>

fun printResults :: "'d cursorItem list \<Rightarrow> nat \<Rightarrow> 'd shellLine list" where
  "printResults [] rowCount = [Rule, Count rowCount]"
| "printResults (Undecodable # cursor) rowCount = DecodeError # printResults cursor rowCount"
| "printResults (Decoded d # cursor) rowCount = Result d # printResults cursor (Suc rowCount)"

text \<open>
  \<open>Find\<close> with the option \<open>SetLimit(100)\<close>: of the documents of the collection that
  match the filter, which \<open>matching\<close> gives in the order of the server (nothing when the
  query fails; no filter is the nil filter), the cursor has the first 100.
\<close>

definition findLimit100 ::
  "(string \<Rightarrow> 'f option \<Rightarrow> 'd cursorItem list option) \<Rightarrow> string \<Rightarrow> 'f option
     \<Rightarrow> 'd cursorItem list option" where
  "findLimit100 matching collectionName filter0 =
     map_option (take 100) (matching collectionName filter0)"

text \<open>
  The MongoDB shell on a line that is none of the keywords: \<open>collection|filter\<close>.
  \<open>unmarshal\<close> is \<open>bson.UnmarshalExtJSON\<close>, with nothing for an error.
\<close>

definition mongoQuery ::
  "(string \<Rightarrow> 'f option) \<Rightarrow> (string \<Rightarrow> 'f option \<Rightarrow> 'd cursorItem list option) \<Rightarrow> string
     \<Rightarrow> 'd shellLine list" where
  "mongoQuery unmarshal matching input =
     (case splitN input ''|'' 2 of
        [part0, part1] \<Rightarrow>
          let collectionName = trimSpace part0;
              filterStr = trimSpace part1;
              parsed = (if filterStr \<noteq> ''{}'' \<and> filterStr \<noteq> [] then unmarshal filterStr
                        else None)
          in if filterStr \<noteq> ''{}'' \<and> filterStr \<noteq> [] \<and> parsed = None then [FilterParseError]
             else (case findLimit100 matching collectionName parsed of
                     None \<Rightarrow> [QueryError]
                   | Some cursor \<Rightarrow> Rule # printResults cursor 0)
      | _ \<Rightarrow> [FormatError])"

text \<open>
  The MySQL shell on a line that is none of the keywords: the line is the query.
  \<open>db.Query\<close> fails, or \<open>rows.Columns\<close> does, or there are the columns and the rows, all
  that the query selects.
\<close>

datatype 'd sqlAnswer = QueryFailed | ColumnsFailed | Rows "string list" "'d cursorItem list"

definition sqlQuery :: "(string \<Rightarrow> 'd sqlAnswer) \<Rightarrow> string \<Rightarrow> 'd shellLine list" where
  "sqlQuery query input =
     (case query input of
        QueryFailed \<Rightarrow> [QueryError]
      | ColumnsFailed \<Rightarrow> [ColumnsError]
      | Rows cols cursor \<Rightarrow> [Rule, Header cols, Rule] @ printResults cursor 0)"

text \<open>
  One pass of the loop of \<open>startTextInterface\<close>, the same in both programs but for the
  answer to a query: whether the loop ends, and what is printed after the prompt.
\<close>

definition shellStep :: "(string \<Rightarrow> 'd shellLine list) \<Rightarrow> string \<Rightarrow> bool \<times> 'd shellLine list" where
  "shellStep answer line =
     (let input = trimSpace line in
      if input = [] then (False, [])
      else if input = ''exit'' \<or> input = ''quit'' then (True, [Bye])
      else if input = ''help'' then (False, [Help])
      else if input = ''benchmark'' then (False, [Benchmark])
      else (False, answer input))"

text \<open>
  \<open>startTextInterface\<close> on the lines that standard input gives; at the end of the input
  \<open>ReadString\<close> gives the empty line for ever, and the loop does not end.
\<close>

partial_function (option) startTextInterface ::
  "(string \<Rightarrow> 'd shellLine list) \<Rightarrow> string stream \<Rightarrow> 'd shellLine list
     \<Rightarrow> 'd shellLine list option" where
  "startTextInterface answer stdin out =
     (let (stop, p) = shellStep answer (shd stdin) in
      if stop then Some (out @ Prompt # p)
      else startTextInterface answer (stl stdin) (out @ Prompt # p))"

text \<open>The results and the counts among the lines printed.\<close>

fun results :: "'d shellLine list \<Rightarrow> 'd list" where
  "results [] = []"
| "results (Result d # out) = d # results out"
| "results (l # out) = results out"

fun counts :: "'d shellLine list \<Rightarrow> nat list" where
  "counts [] = []"
| "counts (Count n # out) = n # counts out"
| "counts (l # out) = counts out"

text \<open>The results that a cursor decodes.\<close>

fun decoded :: "'d cursorItem list \<Rightarrow> 'd list" where
  "decoded [] = []"
| "decoded (Decoded d # cursor) = d # decoded cursor"
| "decoded (Undecodable # cursor) = decoded cursor"






text \<open>The line that the loop over a cursor prints for an item.\<close>

fun lineOf :: "'d cursorItem \<Rightarrow> 'd shellLine" where
  "lineOf (Decoded d) = Result d"
| "lineOf Undecodable = DecodeError"

section \<open>Properties of the field parsers\<close>

lemma contains_single: "contains s [c] = (c \<in> set s)"
  by (induction s) auto

lemma lowerASCII_at: "lowerASCII c = CHR ''@'' \<longleftrightarrow> c = CHR ''@''"
proof
  assume h: "lowerASCII c = CHR ''@''"
  show "c = CHR ''@''"
  proof (cases "isUpperASCII c")
    case False
    with h show ?thesis by (simp add: lowerASCII_def)
  next
    case True
    with h have "char_of (of_char c + (32::nat)) = CHR ''@''" by (simp add: lowerASCII_def)
    then have "(of_char (char_of (of_char c + (32::nat))) :: nat) = of_char (CHR ''@'')" by simp
    then have "(of_char c + 32) mod 256 = (64::nat)" by simp
    moreover from True have "(of_char c :: nat) + 32 < 256" "65 \<le> (of_char c :: nat)"
      by (simp_all add: isUpperASCII_def)
    ultimately show ?thesis by simp
  qed
next
  assume "c = CHR ''@''"
  then show "lowerASCII c = CHR ''@''" by (simp add: lowerASCII_def isUpperASCII_def)
qed

lemma equalFold_at: "equalFold s t \<Longrightarrow> CHR ''@'' \<in> set s \<Longrightarrow> CHR ''@'' \<in> set t"
proof (induction s t rule: equalFold.induct)
  case (4 x s c t)
  show ?case
  proof (cases "lowerASCII x = lowerASCII c")
    case True
    have at: "lowerASCII (CHR ''@'') = CHR ''@''" by (simp add: lowerASCII_at)
    show ?thesis
    proof (cases "x = CHR ''@''")
      case xa: True
      with True at have "lowerASCII c = CHR ''@''" by simp
      then show ?thesis by (simp add: lowerASCII_at)
    next
      case False
      with 4 True show ?thesis by auto
    qed
  next
    case nx: False
    show ?thesis
    proof (cases "lowerASCII c = CHR ''s'' \<and> x = CHR 0xC5 \<and> prefix [CHR 0xBF] s")
      case True
      then obtain s' where s': "s = CHR 0xBF # s'" by (auto simp: prefix_def)
      with 4 nx True show ?thesis by auto
    next
      case ns: False
      show ?thesis
      proof (cases "lowerASCII c = CHR ''k'' \<and> x = CHR 0xE2 \<and> prefix [CHR 0x84, CHR 0xAA] s")
        case True
        then obtain s' where s': "s = CHR 0x84 # CHR 0xAA # s'" by (auto simp: prefix_def)
        with 4 nx ns True show ?thesis by auto
      next
        case False
        with 4 nx ns show ?thesis by simp
      qed
    qed
  qed
qed simp_all

lemma lower_word_at: "map lowerASCII t = w \<Longrightarrow> CHR ''@'' \<notin> set w \<Longrightarrow> CHR ''@'' \<notin> set t"
proof
  assume a: "map lowerASCII t = w" "CHR ''@'' \<notin> set w" "CHR ''@'' \<in> set t"
  then have "lowerASCII (CHR ''@'') \<in> set w" by auto
  moreover have "lowerASCII (CHR ''@'') = CHR ''@''" by (simp add: lowerASCII_at)
  ultimately show False using a by simp
qed

text \<open>
  Claim C1. For every input, \<open>cleanEmail\<close> returns what the specification's \<open>parseEmail\<close>
  returns: nothing when the trimmed input is empty, is \<open>true\<close> or \<open>false\<close> in any letter
  case, or has no \<open>@\<close>, and the trimmed input otherwise. The five inputs the
  specification lists give the results it lists.
\<close>

theorem cleanEmail_refines_parseEmail:
  "cleanEmail s = parseEmail_spec s
   \<and> cleanEmail ''True'' = None \<and> cleanEmail ''FALSE'' = None \<and> cleanEmail '''' = None
   \<and> cleanEmail ''not-an-email'' = None \<and> cleanEmail '' a@b.com '' = Some ''a@b.com''"
proof -
  have gen: "cleanEmail s = parseEmail_spec s"
  proof (cases "CHR ''@'' \<in> set (trimSpace s)")
    case False
    then show ?thesis by (simp add: cleanEmail_def parseEmail_spec_def contains_single Let_def)
  next
    case True
    then have ne: "trimSpace s \<noteq> []" by auto
    from True have f1: "\<not> equalFold (trimSpace s) ''true''" "\<not> equalFold (trimSpace s) ''false''"
      using equalFold_at[of "trimSpace s" "''true''"] equalFold_at[of "trimSpace s" "''false''"]
      by auto
    from True have f2: "map lowerASCII (trimSpace s) \<noteq> ''true''" "map lowerASCII (trimSpace s) \<noteq> ''false''"
      using lower_word_at[of "trimSpace s" "''true''"] lower_word_at[of "trimSpace s" "''false''"]
      by auto
    from True ne f1 f2 show ?thesis
      by (simp add: cleanEmail_def parseEmail_spec_def contains_single Let_def)
  qed
  have e1: "cleanEmail ''True'' = None" by code_simp
  have e2: "cleanEmail ''FALSE'' = None" by code_simp
  have e3: "cleanEmail '''' = None" by code_simp
  have e4: "cleanEmail ''not-an-email'' = None" by code_simp
  have e5: "cleanEmail '' a@b.com '' = Some ''a@b.com''" by code_simp
  from gen e1 e2 e3 e4 e5 show ?thesis by simp
qed

theorem cleanEmail_refines_parseEmail_witness:
  "cleanEmail (''Fal'' @ [CHR 0xC5, CHR 0xBF] @ ''E'') = None
   \<and> parseEmail_spec (''Fal'' @ [CHR 0xC5, CHR 0xBF] @ ''E'') = None
   \<and> cleanEmail ''  x@y  '' = Some ''x@y''"
proof -
  have a: "parseEmail_spec (''Fal'' @ [CHR 0xC5, CHR 0xBF] @ ''E'') = None" by code_simp
  have b: "parseEmail_spec ''  x@y  '' = Some ''x@y''" by code_simp
  from a b show ?thesis
    using cleanEmail_refines_parseEmail [of "''Fal'' @ [CHR 0xC5, CHR 0xBF] @ ''E''"]
      cleanEmail_refines_parseEmail [of "''  x@y  ''"]
    by simp
qed

lemma whiteSpace_nonempty: "w \<in> set whiteSpace \<Longrightarrow> w \<noteq> []"
  by (auto simp: whiteSpace_def)


lemma trailingSpace_0_iff: "trailingSpace s = 0 \<longleftrightarrow> (\<forall>w \<in> set whiteSpace. \<not> suffix w s)"
  by (auto simp: trailingSpace_def find_None_iff find_Some_iff whiteSpace_nonempty
      split: option.splits dest: nth_mem)













lemma months_table: "months = zip englishMonths [1..12]"
  by code_simp

lemma months_range: "map_of months w = Some n \<Longrightarrow> 1 \<le> n \<and> n \<le> 12"
proof -
  assume "map_of months w = Some n"
  then have "(w, n) \<in> set months" by (rule map_of_SomeD)
  then show ?thesis by (auto simp: months_def)
qed

text \<open>
  Claim C6, as amended. \<open>monthToIntOrNull\<close> is total and strips the white space around
  its input first. It then does what the specification's \<open>parseMonth\<close> does on the
  stripped input: no result and no warning when that is empty (so also for an input of
  white space only), the month's number, from 1 to 12 and without a warning, when its
  lower-case form is one of the twelve English month names, and no result with a
  warning that quotes the stripped input otherwise. The four inputs the specification
  lists give the results it lists.
\<close>

theorem monthToIntOrNull_parses_trimmed:
  "monthToIntOrNull s = parseMonth_spec (trimSpace s)
   \<and> (\<forall>n. fst (monthToIntOrNull s) = Some n
          \<longrightarrow> 1 \<le> n \<and> n \<le> 12 \<and> snd (monthToIntOrNull s) = [])
   \<and> (trimSpace s = [] \<longrightarrow> monthToIntOrNull s = (None, []))
   \<and> monthToIntOrNull ''January'' = (Some 1, [])
   \<and> monthToIntOrNull ''december'' = (Some 12, [])
   \<and> monthToIntOrNull '''' = (None, [])
   \<and> monthToIntOrNull ''Smarch'' = (None, [WarnMonth ''Smarch''])"
proof -
  have a: "monthToIntOrNull s = parseMonth_spec (trimSpace s)"
    by (simp add: monthToIntOrNull_def parseMonth_spec_def months_table Let_def)
  have b: "\<forall>n. fst (monthToIntOrNull s) = Some n
          \<longrightarrow> 1 \<le> n \<and> n \<le> 12 \<and> snd (monthToIntOrNull s) = []"
    by (auto simp: monthToIntOrNull_def Let_def dest: months_range split: option.splits)
  have c: "trimSpace s = [] \<longrightarrow> monthToIntOrNull s = (None, [])"
    by (simp add: monthToIntOrNull_def)
  have e1: "monthToIntOrNull ''January'' = (Some 1, [])" by code_simp
  have e2: "monthToIntOrNull ''december'' = (Some 12, [])" by code_simp
  have e3: "monthToIntOrNull '''' = (None, [])" by code_simp
  have e4: "monthToIntOrNull ''Smarch'' = (None, [WarnMonth ''Smarch''])" by code_simp
  from a b c e1 e2 e3 e4 show ?thesis by blast
qed

theorem monthToIntOrNull_parses_trimmed_witness:
  "trimSpace ''  MARCH '' = ''MARCH''
   \<and> monthToIntOrNull ''  MARCH '' = (Some 3, [])
   \<and> trimSpace [CHR 0x09, CHR 0x20] = []
   \<and> monthToIntOrNull [CHR 0x09, CHR 0x20] = (None, [])"
proof -
  have t: "trimSpace ''  MARCH '' = ''MARCH''" by code_simp
  have p: "parseMonth_spec ''MARCH'' = (Some 3, [])" by code_simp
  have u: "trimSpace [CHR 0x09, CHR 0x20] = []" by code_simp
  have q: "parseMonth_spec [] = (None, [])" by (simp add: parseMonth_spec_def)
  from t p u q show ?thesis
    using monthToIntOrNull_parses_trimmed [of "''  MARCH ''"]
      monthToIntOrNull_parses_trimmed [of "[CHR 0x09, CHR 0x20]"]
    by simp
qed

text \<open>
  Claim C6 as it is written fails on an input of one space: the input is not empty and
  is no month name, the specification's \<open>parseMonth\<close> warns, the code does not. On
  \<open>" January "\<close> the code answers 1 where the words of the claim give a warning.
\<close>

theorem monthToIntOrNull_blank_counterexample:
  "monthToIntOrNull '' '' = (None, []) \<and> parseMonth_spec '' '' = (None, [WarnMonth '' ''])
   \<and> monthToIntOrNull '' January '' = (Some 1, [])
   \<and> parseMonth_spec '' January '' = (None, [WarnMonth '' January ''])"
  by code_simp




section \<open>The counters of the import loop\<close>

lemma progress_fields [simp]:
  "good (progress i st) = good st" "bad (progress i st) = bad st"
  "patronDocs (progress i st) = patronDocs st" "store (progress i st) = store st"
  by (simp_all add: progress_def)

















section \<open>Rows that are too short\<close>



















section \<open>Store calls that succeed\<close>







section \<open>Batches\<close>









section \<open>The reference collections\<close>













section \<open>The reset at the start of a load\<close>

lemma createIndex_keeps:
  "patrons (snd (createIndex c m)) = patrons m"
  "patron_types (snd (createIndex c m)) = patron_types m"
  "libraries (snd (createIndex c m)) = libraries m"
  "notification_types (snd (createIndex c m)) = notification_types m"
  "upsertScript (snd (createIndex c m)) = upsertScript m"
  "insertScript (snd (createIndex c m)) = insertScript m"
  "dropScript (snd (createIndex c m)) = dropScript m"
  by (simp_all add: createIndex_def split_beta)














section \<open>A load does not depend on what the store held before\<close>















section \<open>A reset whose drops fail\<close>








section \<open>The schema script\<close>































end
